theory Spec2Isabelle
  imports Complex_Main
begin

section \<open>Values\<close>

text \<open>
  A Python float is a finite double, an infinity or NaN. A finite double is modelled by
  the real number it denotes; rounding is not modelled. Every comparison of main.py is
  against a literal of \<open>SULCATA_ENV\<close> (or against \<open>40.0 - 10\<close> and \<open>60.0 + 15\<close>, both
  exact in double arithmetic), so the comparisons below are the ones the program makes.
  Every comparison with NaN is false.
\<close>

datatype pyfloat = NegInf | Fin real | PosInf | NaN

fun flt :: "pyfloat \<Rightarrow> pyfloat \<Rightarrow> bool" where
  "flt NaN _ = False"
| "flt _ NaN = False"
| "flt (Fin a) (Fin b) = (a < b)"
| "flt PosInf _ = False"
| "flt _ NegInf = False"
| "flt _ _ = True"

fun fle :: "pyfloat \<Rightarrow> pyfloat \<Rightarrow> bool" where
  "fle NaN _ = False"
| "fle _ NaN = False"
| "fle (Fin a) (Fin b) = (a \<le> b)"
| "fle NegInf _ = True"
| "fle _ PosInf = True"
| "fle _ _ = False"

definition fgt :: "pyfloat \<Rightarrow> pyfloat \<Rightarrow> bool" where
  "fgt a b = flt b a"

definition fge :: "pyfloat \<Rightarrow> pyfloat \<Rightarrow> bool" where
  "fge a b = fle b a"

text \<open>JSON values as \<open>json.loads\<close> returns them; an object is a dict in insertion order.\<close>

datatype jvalue =
    JNull
  | JBool bool
  | JInt int
  | JFloat pyfloat
  | JStr string
  | JArr "jvalue list"
  | JObj "(string \<times> jvalue) list"

text \<open>
  A \<open>pd.Timestamp\<close> is a count of nanoseconds since the epoch. An entry of
  \<open>sensor_data\<close> is a dict whose values are JSON values or timestamps.
\<close>

type_synonym timestamp = int

datatype pyval = Json jvalue | Time timestamp

type_synonym entry = "(string \<times> pyval) list"

definition dict_set :: "(string \<times> 'v) list \<Rightarrow> string \<Rightarrow> 'v \<Rightarrow> (string \<times> 'v) list" where
  \<comment> \<open>\<open>d[k] = v\<close>: an existing key keeps its position, a new key goes last.\<close>
  "dict_set d k v =
     (if k \<in> fst ` set d then map (\<lambda>(k', v'). if k' = k then (k', v) else (k', v')) d
      else d @ [(k, v)])"

datatype pyexn = KeyError | TypeError | ValueError | OverflowError | AttributeError | IOError

section \<open>Configuration\<close>

definition MAX_DATA_POINTS :: nat where
  "MAX_DATA_POINTS = 10000"

record envelope =
  temp_min :: real
  temp_ideal_min :: real
  temp_ideal_max :: real
  temp_max :: real
  hum_min :: real
  hum_max :: real

definition SULCATA_ENV :: envelope where
  "SULCATA_ENV = \<lparr> temp_min = 18, temp_ideal_min = 27, temp_ideal_max = 35,
                   temp_max = 40, hum_min = 40, hum_max = 60 \<rparr>"

definition ALERT_COOLDOWN :: real where
  "ALERT_COOLDOWN = 1800"

section \<open>Status classification (\<open>sulcata_status\<close>)\<close>

datatype temp_band = TooCold | TooCool | TempPerfect | TooWarm | TooHot

datatype hum_band = TooDry | HumPerfect | TooHumid

definition temp_status :: "pyfloat \<Rightarrow> temp_band" where
  "temp_status temp =
     (if flt temp (Fin (temp_min SULCATA_ENV)) then TooCold
      else if flt temp (Fin (temp_ideal_min SULCATA_ENV)) then TooCool
      else if fle temp (Fin (temp_ideal_max SULCATA_ENV)) then TempPerfect
      else if fle temp (Fin (temp_max SULCATA_ENV)) then TooWarm
      else TooHot)"

definition hum_status :: "pyfloat \<Rightarrow> hum_band" where
  "hum_status hum =
     (if flt hum (Fin (hum_min SULCATA_ENV)) then TooDry
      else if fle hum (Fin (hum_max SULCATA_ENV)) then HumPerfect
      else TooHumid)"

section \<open>Alert policy (\<open>check_conditions_and_alert\<close>)\<close>

datatype msg_part = Header | TempTooLow pyfloat | TempTooHigh pyfloat
  | HumTooLow pyfloat | HumTooHigh pyfloat

fun is_temp_part :: "msg_part \<Rightarrow> bool" where
  "is_temp_part (TempTooLow _) = True"
| "is_temp_part (TempTooHigh _) = True"
| "is_temp_part _ = False"

fun is_hum_part :: "msg_part \<Rightarrow> bool" where
  "is_hum_part (HumTooLow _) = True"
| "is_hum_part (HumTooHigh _) = True"
| "is_hum_part _ = False"

definition check_temperature :: "pyfloat \<Rightarrow> bool \<times> msg_part list \<Rightarrow> bool \<times> msg_part list" where
  \<comment> \<open>Lines 527 to 543, on the pair \<open>(alert_needed, alert_message_parts)\<close>.\<close>
  "check_temperature temp st =
     (if flt temp (Fin (temp_min SULCATA_ENV)) then (True, snd st @ [TempTooLow temp])
      else if fgt temp (Fin (temp_max SULCATA_ENV)) then (True, snd st @ [TempTooHigh temp])
      else st)"

definition check_humidity :: "pyfloat \<Rightarrow> bool \<times> msg_part list \<Rightarrow> bool \<times> msg_part list" where
  \<comment> \<open>Lines 545 to 561.\<close>
  "check_humidity hum st =
     (if flt hum (Fin (hum_min SULCATA_ENV - 10)) then (True, snd st @ [HumTooLow hum])
      else if fgt hum (Fin (hum_max SULCATA_ENV + 15)) then (True, snd st @ [HumTooHigh hum])
      else st)"

definition conditions :: "pyfloat \<Rightarrow> pyfloat \<Rightarrow> bool \<times> msg_part list" where
  "conditions temp hum = check_humidity hum (check_temperature temp (False, [Header]))"

section \<open>Process state and the outside world\<close>

text \<open>
  \<open>DATA_FILE\<close> is absent, present but impossible to open or to parse as JSON, or it
  holds a JSON value. The text of the file is not modelled.
\<close>

datatype data_file = Missing | Unreadable | Stored jvalue

record state =
  sensor_data :: "entry list"
  last_alert_time :: real
  ALERT_CHANNEL_ID :: "int option"
  DATA_FILE :: data_file

definition initial_state :: "data_file \<Rightarrow> state" where
  \<comment> \<open>The module's globals once it is imported; line 74 resets the channel to None.\<close>
  "initial_state f =
     \<lparr> sensor_data = [], last_alert_time = 0, ALERT_CHANNEL_ID = None, DATA_FILE = f \<rparr>"

text \<open>
  Library functions main.py calls and does not define: \<open>float\<close> on a str (None when it
  raises ValueError), \<open>Timestamp.isoformat\<close>, and \<open>pd.Timestamp\<close> on a JSON value (None
  when it raises). They are parameters of the model.
\<close>

record pylib =
  str_float :: "string \<Rightarrow> pyfloat option"
  isoformat :: "timestamp \<Rightarrow> string"
  to_timestamp :: "jvalue \<Rightarrow> timestamp option"

text \<open>What one call of the \<open>/update\<close> handler meets outside the process.\<close>

datatype disk = OpenFails | DumpFails | Writes

datatype dispatch = NoChannel | SendRaises | SendReturns

record world =
  body :: "jvalue option"  \<comment> \<open>\<open>request.json()\<close>; None when it raises JSONDecodeError\<close>
  ts_now :: timestamp      \<comment> \<open>\<open>pd.Timestamp.now()\<close>\<close>
  clock :: real            \<comment> \<open>\<open>time.time()\<close>\<close>
  disk :: disk             \<comment> \<open>what \<open>open\<close> and \<open>json.dump\<close> do if the handler saves\<close>
  dispatch :: dispatch     \<comment> \<open>what \<open>bot.get_channel\<close> and \<open>channel.send\<close> do if it alerts\<close>

subsection \<open>Python slices\<close>

definition py_tail :: "int \<Rightarrow> 'a list \<Rightarrow> 'a list" where
  \<comment> \<open>\<open>xs[-n:]\<close>: the last n elements for positive n, everything for 0, \<open>xs[k:]\<close> for n = -k.\<close>
  "py_tail n xs =
     (if 0 < n then drop (length xs - nat n) xs else drop (nat (- n)) xs)"

subsection \<open>Alerting\<close>

datatype alert_effect =
    NotEvaluated             \<comment> \<open>the handler failed before the call\<close>
  | Skipped                  \<comment> \<open>the early return of line 522\<close>
  | NotNeeded
  | ChannelNotFound
  | SendFailed "msg_part list"
  | Sent "msg_part list"

definition truthy :: "int option \<Rightarrow> bool" where
  "truthy c = (case c of None \<Rightarrow> False | Some i \<Rightarrow> i \<noteq> 0)"

definition check_conditions_and_alert ::
  "state \<Rightarrow> real \<Rightarrow> dispatch \<Rightarrow> pyfloat \<Rightarrow> pyfloat \<Rightarrow> alert_effect \<times> state" where
  "check_conditions_and_alert s current_time d temp hum =
     (if \<not> truthy (ALERT_CHANNEL_ID s) \<or> current_time - last_alert_time s < ALERT_COOLDOWN
      then (Skipped, s)
      else
        let (alert_needed, alert_message_parts) = conditions temp hum in
        if alert_needed then
          (case d of
             NoChannel \<Rightarrow> (ChannelNotFound, s)
           | SendRaises \<Rightarrow> (SendFailed alert_message_parts, s)
           | SendReturns \<Rightarrow> (Sent alert_message_parts, s\<lparr>last_alert_time := current_time\<rparr>))
        else (NotNeeded, s))"

definition set_alerts :: "int \<Rightarrow> state \<Rightarrow> state" where
  "set_alerts channel_id s = s\<lparr>ALERT_CHANNEL_ID := Some channel_id\<rparr>"

text \<open>
  The evaluation is a coroutine: between the guard of line 521 and the assignment of line
  571 it suspends at \<open>await channel.send\<close> (line 569), and other requests may run in the
  meantime. The two halves of \<open>check_conditions_and_alert\<close> are therefore modelled apart.
  An evaluation is the clock reading, the dispatch outcome and the reading; a pending
  dispatch is a coroutine suspended at line 569, with its \<open>current_time\<close>, what its send
  will do and its message. \<open>bot.get_channel\<close> does not suspend, so an evaluation that
  finds no channel ends at once.
\<close>

type_synonym evaluation = "real \<times> dispatch \<times> pyfloat \<times> pyfloat"

type_synonym pending = "real \<times> dispatch \<times> msg_part list"

fun begin_check :: "state \<Rightarrow> evaluation \<Rightarrow> alert_effect + pending" where
  \<comment> \<open>Lines 518 to 568: Inl when the evaluation ends without suspending.\<close>
  "begin_check s (current_time, d, temp, hum) =
     (if \<not> truthy (ALERT_CHANNEL_ID s) \<or> current_time - last_alert_time s < ALERT_COOLDOWN
      then Inl Skipped
      else
        let (alert_needed, alert_message_parts) = conditions temp hum in
        if alert_needed then
          (case d of
             NoChannel \<Rightarrow> Inl ChannelNotFound
           | SendRaises \<Rightarrow> Inr (current_time, d, alert_message_parts)
           | SendReturns \<Rightarrow> Inr (current_time, d, alert_message_parts))
        else Inl NotNeeded)"

fun end_check :: "state \<Rightarrow> pending \<Rightarrow> alert_effect \<times> state" where
  \<comment> \<open>Lines 569 to 573, when the send has returned or raised, on the state of that moment.\<close>
  "end_check s (current_time, d, alert_message_parts) =
     (case d of
        NoChannel \<Rightarrow> (ChannelNotFound, s)
      | SendRaises \<Rightarrow> (SendFailed alert_message_parts, s)
      | SendReturns \<Rightarrow> (Sent alert_message_parts, s\<lparr>last_alert_time := current_time\<rparr>))"

text \<open>
  A schedule is what the event loop does: an evaluation arrives and runs up to its
  \<open>await\<close>, or the n-th pending dispatch completes and its coroutine runs to the end.
  Each effect is recorded with the \<open>current_time\<close> of its evaluation.
\<close>

datatype event = Arrive evaluation | Resume nat

fun step ::
  "state \<times> pending list \<Rightarrow> event \<Rightarrow> (real \<times> alert_effect) list \<times> (state \<times> pending list)" where
  "step (s, ps) (Arrive e) =
     (case begin_check s e of
        Inl eff \<Rightarrow> ([(fst e, eff)], (s, ps))
      | Inr p \<Rightarrow> ([], (s, ps @ [p])))"
| "step (s, ps) (Resume n) =
     (if n < length ps then
        (let (eff, s') = end_check s (ps ! n)
         in ([(fst (ps ! n), eff)], (s', take n ps @ drop (Suc n) ps)))
      else ([], (s, ps)))"

fun schedule :: "state \<times> pending list \<Rightarrow> event list \<Rightarrow> (real \<times> alert_effect) list" where
  "schedule c [] = []"
| "schedule c (ev # evs) = fst (step c ev) @ schedule (snd (step c ev)) evs"

fun one_at_a_time :: "state \<times> pending list \<Rightarrow> event list \<Rightarrow> bool" where
  \<comment> \<open>No evaluation arrives while a dispatch is pending.\<close>
  "one_at_a_time c [] = True"
| "one_at_a_time c (Arrive e # evs) = (snd c = [] \<and> one_at_a_time (snd (step c (Arrive e))) evs)"
| "one_at_a_time c (Resume n # evs) = one_at_a_time (snd (step c (Resume n))) evs"

fun is_sent :: "alert_effect \<Rightarrow> bool" where
  "is_sent (Sent _) = True"
| "is_sent _ = False"

fun is_attempt :: "alert_effect \<Rightarrow> bool" where
  "is_attempt (Sent _) = True"
| "is_attempt (SendFailed _) = True"
| "is_attempt _ = False"

definition sent_times :: "state \<times> pending list \<Rightarrow> event list \<Rightarrow> real list" where
  "sent_times c evs = map fst (filter (\<lambda>(t, eff). is_sent eff) (schedule c evs))"

definition outcome :: "dispatch \<Rightarrow> msg_part list \<Rightarrow> alert_effect" where
  \<comment> \<open>How a dispatch that is attempted ends.\<close>
  "outcome d parts =
     (case d of NoChannel \<Rightarrow> ChannelNotFound | SendRaises \<Rightarrow> SendFailed parts
      | SendReturns \<Rightarrow> Sent parts)"

section \<open>Persistence (\<open>save_sensor_data\<close>, \<open>load_sensor_data\<close>)\<close>

fun mapM :: "('a \<Rightarrow> pyexn + 'b) \<Rightarrow> 'a list \<Rightarrow> pyexn + 'b list" where
  \<comment> \<open>A loop or comprehension that stops at the first exception.\<close>
  "mapM f [] = Inr []"
| "mapM f (x # xs) =
     (case f x of
        Inl e \<Rightarrow> Inl e
      | Inr y \<Rightarrow> (case mapM f xs of Inl e \<Rightarrow> Inl e | Inr ys \<Rightarrow> Inr (y # ys)))"

definition dump_item :: "pylib \<Rightarrow> entry \<Rightarrow> pyexn + entry" where
  \<comment> \<open>\<open>{**item, "time": item["time"].isoformat()}\<close>\<close>
  "dump_item L item =
     (case map_of item ''time'' of
        None \<Rightarrow> Inl KeyError
      | Some (Json v) \<Rightarrow> Inl AttributeError
      | Some (Time t) \<Rightarrow> Inr (dict_set item ''time'' (Json (JStr (isoformat L t)))))"

definition json_of_item :: "entry \<Rightarrow> pyexn + jvalue" where
  \<comment> \<open>\<open>json.dump\<close> writes JSON values and raises TypeError on a Timestamp.\<close>
  "json_of_item item =
     (case mapM (\<lambda>(k, v). case v of Json j \<Rightarrow> Inr (k, j) | Time t \<Rightarrow> Inl TypeError) item of
        Inl e \<Rightarrow> Inl e
      | Inr kvs \<Rightarrow> Inr (JObj kvs))"

definition save_sensor_data :: "pylib \<Rightarrow> disk \<Rightarrow> state \<Rightarrow> state" where
  \<comment> \<open>Every exception is caught and logged. A dump that fails leaves a truncated file.\<close>
  "save_sensor_data L d s =
     (case mapM (dump_item L) (sensor_data s) of
        Inl e \<Rightarrow> s
      | Inr data_to_save \<Rightarrow>
          (case d of
             OpenFails \<Rightarrow> s
           | DumpFails \<Rightarrow> s\<lparr>DATA_FILE := Unreadable\<rparr>
           | Writes \<Rightarrow>
               (case mapM json_of_item data_to_save of
                  Inl e \<Rightarrow> s\<lparr>DATA_FILE := Unreadable\<rparr>
                | Inr js \<Rightarrow> s\<lparr>DATA_FILE := Stored (JArr js)\<rparr>)))"

definition load_entry :: "pylib \<Rightarrow> jvalue \<Rightarrow> pyexn + entry" where
  \<comment> \<open>\<open>entry["time"] = pd.Timestamp(entry["time"])\<close>; only a dict can be indexed by a str.\<close>
  "load_entry L j =
     (case j of
        JObj kvs \<Rightarrow>
          (case map_of kvs ''time'' of
             None \<Rightarrow> Inl KeyError
           | Some v \<Rightarrow>
               (case to_timestamp L v of
                  None \<Rightarrow> Inl ValueError
                | Some t \<Rightarrow> Inr (dict_set (map (\<lambda>(k, v). (k, Json v)) kvs) ''time'' (Time t))))
      | _ \<Rightarrow> Inl TypeError)"

definition load_entries :: "pylib \<Rightarrow> jvalue \<Rightarrow> pyexn + entry list" where
  \<comment> \<open>The loop of lines 88 and 89 and the slice of line 90, by the kind of the value read:
      a list is converted entry by entry; a non-empty dict or str fails in the loop body,
      an empty dict at the slice; an empty str passes both and leaves an empty sequence;
      None, a bool and a number cannot be iterated.\<close>
  "load_entries L data =
     (case data of
        JArr items \<Rightarrow>
          (case mapM (load_entry L) items of
             Inl e \<Rightarrow> Inl e
           | Inr es \<Rightarrow> Inr (py_tail (int MAX_DATA_POINTS) es))
      | JStr str \<Rightarrow> (if str = [] then Inr [] else Inl TypeError)
      | _ \<Rightarrow> Inl TypeError)"

definition load_body :: "pylib \<Rightarrow> state \<Rightarrow> pyexn + state" where
  \<comment> \<open>The \<open>try\<close> block of lines 84 to 91.\<close>
  "load_body L s =
     (case DATA_FILE s of
        Missing \<Rightarrow> Inr s
      | Unreadable \<Rightarrow> Inl IOError
      | Stored data \<Rightarrow>
          (case load_entries L data of
             Inl e \<Rightarrow> Inl e
           | Inr es \<Rightarrow> Inr (s\<lparr>sensor_data := es\<rparr>)))"

definition load_sensor_data :: "pylib \<Rightarrow> state \<Rightarrow> pyexn + state" where
  \<comment> \<open>\<open>except Exception\<close> of lines 92 to 94; Inl would be an exception reaching the caller.\<close>
  "load_sensor_data L s =
     (case load_body L s of
        Inl e \<Rightarrow> Inr (s\<lparr>sensor_data := []\<rparr>)
      | Inr s' \<Rightarrow> Inr s')"

section \<open>Ingestion (\<open>update_data\<close>)\<close>

datatype failure = InvalidJSON | MissingField string | Raised pyexn

definition is_infix :: "string \<Rightarrow> string \<Rightarrow> bool" where
  \<comment> \<open>\<open>k in s\<close> for two strs\<close>
  "is_infix k str = list_ex (\<lambda>i. take (length k) (drop i str) = k) [0..<Suc (length str)]"

definition contains :: "jvalue \<Rightarrow> string \<Rightarrow> pyexn + bool" where
  \<comment> \<open>\<open>field in data\<close>\<close>
  "contains data field =
     (case data of
        JObj kvs \<Rightarrow> Inr (field \<in> fst ` set kvs)
      | JArr xs \<Rightarrow> Inr (JStr field \<in> set xs)
      | JStr str \<Rightarrow> Inr (is_infix field str)
      | _ \<Rightarrow> Inl TypeError)"

definition getitem :: "jvalue \<Rightarrow> string \<Rightarrow> pyexn + jvalue" where
  \<comment> \<open>\<open>data[field]\<close> with a str key\<close>
  "getitem data field =
     (case data of
        JObj kvs \<Rightarrow> (case map_of kvs field of None \<Rightarrow> Inl KeyError | Some v \<Rightarrow> Inr v)
      | _ \<Rightarrow> Inl TypeError)"

definition py_float :: "pylib \<Rightarrow> jvalue \<Rightarrow> pyexn + pyfloat" where
  \<comment> \<open>The builtin \<open>float\<close>. An int at or beyond \<open>2^1024 - 2^970\<close> in size rounds past the
      largest double and raises OverflowError.\<close>
  "py_float L v =
     (case v of
        JNull \<Rightarrow> Inl TypeError
      | JBool b \<Rightarrow> Inr (Fin (if b then 1 else 0))
      | JInt i \<Rightarrow>
          (if \<bar>i\<bar> < 2 ^ 1024 - 2 ^ 970 then Inr (Fin (of_int i)) else Inl OverflowError)
      | JFloat f \<Rightarrow> Inr f
      | JStr str \<Rightarrow> (case str_float L str of None \<Rightarrow> Inl ValueError | Some f \<Rightarrow> Inr f)
      | JArr xs \<Rightarrow> Inl TypeError
      | JObj kvs \<Rightarrow> Inl TypeError)"

fun required_fields :: "jvalue \<Rightarrow> string list \<Rightarrow> failure + unit" where
  \<comment> \<open>The loop of lines 583 to 585.\<close>
  "required_fields data [] = Inr ()"
| "required_fields data (field # rest) =
     (case contains data field of
        Inl e \<Rightarrow> Inl (Raised e)
      | Inr present \<Rightarrow>
          (if \<not> present then Inl (MissingField field) else required_fields data rest))"

definition items :: "jvalue \<Rightarrow> (string \<times> jvalue) list" where
  \<comment> \<open>\<open>data.items()\<close>; reached only when \<open>data["temp"]\<close> has succeeded, so on a dict.\<close>
  "items data = (case data of JObj kvs \<Rightarrow> kvs | _ \<Rightarrow> [])"

definition add_extra :: "entry \<Rightarrow> string \<times> jvalue \<Rightarrow> entry" where
  \<comment> \<open>Lines 596 and 597.\<close>
  "add_extra entry kv =
     (if fst kv \<notin> fst ` set entry \<and> fst kv \<notin> set [''time'']
      then dict_set entry (fst kv) (Json (snd kv)) else entry)"

definition new_entry :: "pylib \<Rightarrow> world \<Rightarrow> failure + entry" where
  \<comment> \<open>Lines 579 to 597: everything before the store is touched.\<close>
  "new_entry L w =
     (case body w of
        None \<Rightarrow> Inl InvalidJSON
      | Some data \<Rightarrow>
          (case required_fields data [''temp'', ''hum''] of
             Inl f \<Rightarrow> Inl f
           | Inr _ \<Rightarrow>
               (case getitem data ''temp'' of
                  Inl e \<Rightarrow> Inl (Raised e)
                | Inr tv \<Rightarrow>
                    (case py_float L tv of
                       Inl e \<Rightarrow> Inl (Raised e)
                     | Inr t \<Rightarrow>
                         (case getitem data ''hum'' of
                            Inl e \<Rightarrow> Inl (Raised e)
                          | Inr hv \<Rightarrow>
                              (case py_float L hv of
                                 Inl e \<Rightarrow> Inl (Raised e)
                               | Inr h \<Rightarrow>
                                   Inr (foldl add_extra
                                         [(''temp'', Json (JFloat t)), (''hum'', Json (JFloat h)),
                                          (''time'', Time (ts_now w))]
                                         (items data))))))))"

datatype flag = ok | warning

datatype response = Received flag flag | HTTPException nat

definition entry_float :: "entry \<Rightarrow> string \<Rightarrow> pyfloat" where
  \<comment> \<open>\<open>entry["temp"]\<close> and \<open>entry["hum"]\<close> of the entry just built, which holds floats there.\<close>
  "entry_float entry k = (case map_of entry k of Some (Json (JFloat f)) \<Rightarrow> f | _ \<Rightarrow> NaN)"

definition tortoise_status :: "pyfloat \<Rightarrow> pyfloat \<Rightarrow> response" where
  "tortoise_status temp hum =
     Received
       (if fle (Fin (temp_ideal_min SULCATA_ENV)) temp \<and> fle temp (Fin (temp_ideal_max SULCATA_ENV))
        then ok else warning)
       (if fle (Fin (hum_min SULCATA_ENV)) hum \<and> fle hum (Fin (hum_max SULCATA_ENV))
        then ok else warning)"

definition store :: "entry \<Rightarrow> entry list \<Rightarrow> entry list" where
  \<comment> \<open>Lines 600 to 604.\<close>
  "store entry sd =
     (let sd' = sd @ [entry]
      in if length sd' > MAX_DATA_POINTS then py_tail (int MAX_DATA_POINTS) sd' else sd')"

definition update_data :: "pylib \<Rightarrow> state \<Rightarrow> world \<Rightarrow> response \<times> alert_effect \<times> state" where
  \<comment> \<open>An HTTPException raised inside the \<open>try\<close> is an Exception, so line 629 catches the
      one of line 585 and line 631 replaces it.\<close>
  "update_data L s w =
     (case new_entry L w of
        Inl InvalidJSON \<Rightarrow> (HTTPException 400, NotEvaluated, s)
      | Inl (MissingField field) \<Rightarrow> (HTTPException 500, NotEvaluated, s)
      | Inl (Raised e) \<Rightarrow> (HTTPException 500, NotEvaluated, s)
      | Inr entry \<Rightarrow>
          (let s1 = s\<lparr>sensor_data := store entry (sensor_data s)\<rparr>;
               s2 = (if length (sensor_data s1) mod 10 = 0 then save_sensor_data L (disk w) s1 else s1);
               temp = entry_float entry ''temp'';
               hum = entry_float entry ''hum'';
               (eff, s3) = check_conditions_and_alert s2 (clock w) (dispatch w) temp hum
           in (tortoise_status temp hum, eff, s3)))"

fun run :: "pylib \<Rightarrow> state \<Rightarrow> world list \<Rightarrow> state" where
  "run L s [] = s"
| "run L s (w # ws) = run L (snd (snd (update_data L s w))) ws"

definition appended :: "pylib \<Rightarrow> world list \<Rightarrow> entry list" where
  \<comment> \<open>The readings that a run of calls appends, in the order of the calls.\<close>
  "appended L ws = concat (map (\<lambda>w. case new_entry L w of Inl f \<Rightarrow> [] | Inr e \<Rightarrow> [e]) ws)"

section \<open>Query (\<open>get_data\<close>)\<close>



definition hours_ns :: "int \<Rightarrow> int" where
  \<comment> \<open>\<open>pd.Timedelta(hours=h)\<close> in nanoseconds\<close>
  "hours_ns h = h * 3600 * 1000000000"



text \<open>What the time filter keeps, for stating what a query returns.\<close>

definition time_of :: "entry \<Rightarrow> timestamp option" where
  "time_of entry = (case map_of entry ''time'' of Some (Time t) \<Rightarrow> Some t | _ \<Rightarrow> None)"


text \<open>
  An entry as the handler and the loader make it: a dict, so its keys are distinct, with
  a Timestamp under \<open>time\<close> and JSON values under every other key.
\<close>

fun is_json :: "pyval \<Rightarrow> bool" where
  "is_json (Json j) = True"
| "is_json (Time t) = False"

definition well_formed :: "entry \<Rightarrow> bool" where
  "well_formed entry =
     (distinct (map fst entry) \<and> time_of entry \<noteq> None \<and>
      list_all (\<lambda>kv. fst kv = ''time'' \<or> is_json (snd kv)) entry)"

section \<open>Smoothing (\<open>send_plot_rolling\<close>)\<close>

text \<open>
  A cell of a float64 column is a \<open>pyfloat\<close>: the readings are the floats that line 589
  and 590 made, infinities and NaN included. As everywhere in this theory a finite
  double is the real it denotes, so the sum of a window neither rounds nor overflows.

  The pandas operations, as the library documents them. \<open>rolling(window, center=True)\<close>
  gives position i the window that ends \<open>(window - 1) // 2\<close> positions after i, clipped
  to the column. The observations of a window are its finite cells: NaN is a missing
  value, and pandas turns infinities into NaN before it aggregates a window.
  \<open>min_periods\<close> defaults to \<open>window\<close>, so \<open>mean\<close> is NaN unless the window holds \<open>window\<close>
  observations, and is NaN for an empty window. A negative window raises ValueError.
  \<open>fillna(method='ffill')\<close> replaces a NaN by the nearest earlier cell that is not NaN,
  \<open>'bfill'\<close> by the nearest later one.
\<close>

type_synonym row = "timestamp \<times> pyfloat \<times> pyfloat"


fun finite_value :: "pyfloat \<Rightarrow> real option" where
  "finite_value (Fin r) = Some r"
| "finite_value _ = None"

definition window_bounds :: "int \<Rightarrow> nat \<Rightarrow> nat \<Rightarrow> nat \<times> nat" where
  "window_bounds w n i =
     (let offset = (w - 1) div 2;
          e = int i + 1 + offset;
          b = e - w
      in (nat (max 0 (min b (int n))), nat (max 0 (min e (int n)))))"

definition observations :: "pyfloat list \<Rightarrow> real list" where
  \<comment> \<open>The finite cells of a window.\<close>
  "observations cs = List.map_filter finite_value cs"

definition window_mean :: "int \<Rightarrow> pyfloat list \<Rightarrow> nat \<Rightarrow> pyfloat" where
  "window_mean w xs i =
     (let (b, e) = window_bounds w (length xs) i;
          obs = observations (take (e - b) (drop b xs))
      in if w \<le> int (length obs) \<and> obs \<noteq> [] then Fin (sum_list obs / real (length obs))
         else NaN)"

definition rolling_mean :: "int \<Rightarrow> pyfloat list \<Rightarrow> pyexn + pyfloat list" where
  "rolling_mean w xs =
     (if w < 0 then Inl ValueError else Inr (map (window_mean w xs) [0..<length xs]))"

fun ffill_from :: "pyfloat \<Rightarrow> pyfloat list \<Rightarrow> pyfloat list" where
  "ffill_from prev [] = []"
| "ffill_from prev (x # xs) =
     (if x = NaN then prev # ffill_from prev xs else x # ffill_from x xs)"

definition ffill :: "pyfloat list \<Rightarrow> pyfloat list" where
  "ffill xs = ffill_from NaN xs"

definition bfill :: "pyfloat list \<Rightarrow> pyfloat list" where
  "bfill xs = rev (ffill (rev xs))"

datatype plot_reply =
    NoDataToPlot
  | NotEnoughData
  | CommandFails pyexn
  | Plot "pyfloat list" "pyfloat list"

definition smooth_column :: "int \<Rightarrow> pyfloat list \<Rightarrow> pyexn + pyfloat list" where
  \<comment> \<open>Lines 235 and 239 for one column.\<close>
  "smooth_column w xs =
     (case rolling_mean w xs of Inl e \<Rightarrow> Inl e | Inr ys \<Rightarrow> Inr (bfill (ffill ys)))"

definition smooth :: "int \<Rightarrow> row list \<Rightarrow> plot_reply" where
  \<comment> \<open>Lines 227 to 240 on the frame left by the time filter.\<close>
  "smooth window df =
     (if df = [] \<or> int (length df) < window then NotEnoughData
      else
        let df' = sort_key fst df in
        (case smooth_column window (map (\<lambda>r. fst (snd r)) df') of
           Inl e \<Rightarrow> CommandFails e
         | Inr temp_smooth \<Rightarrow>
             (case smooth_column window (map (\<lambda>r. snd (snd r)) df') of
                Inl e \<Rightarrow> CommandFails e
              | Inr hum_smooth \<Rightarrow> Plot temp_smooth hum_smooth)))"

definition send_plot_rolling :: "row list \<Rightarrow> timestamp \<Rightarrow> int \<Rightarrow> int \<Rightarrow> plot_reply" where
  \<comment> \<open>The frame is \<open>pd.DataFrame(sensor_data)\<close>, one row for each entry.\<close>
  "send_plot_rolling frame now hours window =
     (if frame = [] then NoDataToPlot
      else smooth window (filter (\<lambda>r. fst r \<ge> now - hours_ns hours) frame))"

section \<open>Values for running the model\<close>

text \<open>
  A library for the examples below. It gives the results of Python on the values the
  examples use (\<open>float('nan')\<close>, \<open>float('hot')\<close>, the ISO form of the epoch, a Timestamp
  from an int of nanoseconds and from the ISO form of the epoch) and is arbitrary elsewhere. No general theorem depends
  on it: they hold for every library.
\<close>

definition example_lib :: pylib where
  "example_lib =
     \<lparr> str_float = (\<lambda>str. if str = ''nan'' then Some NaN else None),
       isoformat = (\<lambda>t. if t = 0 then ''1970-01-01T00:00:00'' else []),
       to_timestamp =
         (\<lambda>v. case v of
                JInt n \<Rightarrow> Some n
              | JStr str \<Rightarrow> (if str = ''1970-01-01T00:00:00'' then Some 0 else None)
              | _ \<Rightarrow> None) \<rparr>"

definition reading :: "real \<Rightarrow> real \<Rightarrow> jvalue" where
  \<comment> \<open>The payload \<open>{"temp": t, "hum": h}\<close>.\<close>
  "reading t h = JObj [(''temp'', JFloat (Fin t)), (''hum'', JFloat (Fin h))]"

definition call :: "jvalue \<Rightarrow> real \<Rightarrow> dispatch \<Rightarrow> world" where
  \<comment> \<open>A request with this body, arriving when \<open>time.time()\<close> reads \<open>t\<close>.\<close>
  "call b t d = \<lparr> body = Some b, ts_now = 0, clock = t, disk = Writes, dispatch = d \<rparr>"

section \<open>Theorems: classification and alert-worthiness\<close>

text \<open>
  C6. The chain of comparisons of \<open>sulcata_status\<close> puts a temperature below 18 in the
  band too cold, one in [18, 27) in too cool, one in [27, 35] in perfect, one in (35, 40]
  in too warm and one above 40 in too hot; every temperature that is a number lies in one
  of the five ranges; 30.0 is perfect, 15.0 too cold and 41.0 too hot. (NaN, which is in
  no range, falls through every comparison to the last branch.)
\<close>

theorem temp_status_bands:
  "(flt t (Fin 18) \<longrightarrow> temp_status t = TooCold) \<and>
   (fle (Fin 18) t \<and> flt t (Fin 27) \<longrightarrow> temp_status t = TooCool) \<and>
   (fle (Fin 27) t \<and> fle t (Fin 35) \<longrightarrow> temp_status t = TempPerfect) \<and>
   (flt (Fin 35) t \<and> fle t (Fin 40) \<longrightarrow> temp_status t = TooWarm) \<and>
   (flt (Fin 40) t \<longrightarrow> temp_status t = TooHot) \<and>
   (t \<noteq> NaN \<longrightarrow>
      flt t (Fin 18) \<or> (fle (Fin 18) t \<and> flt t (Fin 27)) \<or> (fle (Fin 27) t \<and> fle t (Fin 35))
      \<or> (flt (Fin 35) t \<and> fle t (Fin 40)) \<or> flt (Fin 40) t) \<and>
   temp_status (Fin 30) = TempPerfect \<and> temp_status (Fin 15) = TooCold \<and>
   temp_status (Fin 41) = TooHot"
  by (cases t) (auto simp add: temp_status_def SULCATA_ENV_def)

theorem temp_status_bands_witness:
  "flt (Fin 20) (Fin 27) \<and> fle (Fin 18) (Fin 20) \<and> temp_status (Fin 20) = TooCool \<and>
   flt (Fin 35) (Fin 40) \<and> fle (Fin 40) (Fin 40) \<and> temp_status (Fin 40) = TooWarm \<and>
   fle (Fin 27) (Fin 27) \<and> temp_status (Fin 27) = TempPerfect \<and>
   flt (Fin 17) (Fin 18) \<and> temp_status (Fin 17) = TooCold \<and>
   flt (Fin 40) PosInf \<and> temp_status PosInf = TooHot"
  using temp_status_bands [of "Fin 20"] temp_status_bands [of "Fin 40"]
    temp_status_bands [of "Fin 27"] temp_status_bands [of "Fin 17"] temp_status_bands [of PosInf]
  by simp

text \<open>
  C5. In an evaluation that passes the guard of line 521, the message gets a temperature
  section exactly when the temperature is below \<open>temp_min\<close> = 18 or above \<open>temp_max\<close> = 40,
  and a humidity section exactly when the humidity is below \<open>hum_min - 10\<close> = 30 or above
  \<open>hum_max + 15\<close> = 75; \<open>alert_needed\<close> is set exactly when one of the four holds, and the
  evaluation ends without an alert exactly when none does.
\<close>

theorem alert_worthy_iff:
  "(list_ex is_temp_part (snd (conditions temp hum)) \<longleftrightarrow>
      flt temp (Fin 18) \<or> fgt temp (Fin 40)) \<and>
   (list_ex is_hum_part (snd (conditions temp hum)) \<longleftrightarrow>
      flt hum (Fin (hum_min SULCATA_ENV - 10)) \<or> fgt hum (Fin (hum_max SULCATA_ENV + 15))) \<and>
   hum_min SULCATA_ENV - 10 = 30 \<and> hum_max SULCATA_ENV + 15 = 75 \<and>
   temp_min SULCATA_ENV = 18 \<and> temp_max SULCATA_ENV = 40 \<and>
   (fst (conditions temp hum) \<longleftrightarrow>
      flt temp (Fin 18) \<or> fgt temp (Fin 40) \<or> flt hum (Fin 30) \<or> fgt hum (Fin 75)) \<and>
   (truthy (ALERT_CHANNEL_ID s) \<and> \<not> now - last_alert_time s < ALERT_COOLDOWN \<longrightarrow>
      (fst (check_conditions_and_alert s now d temp hum) = NotNeeded \<longleftrightarrow>
         \<not> (flt temp (Fin 18) \<or> fgt temp (Fin 40) \<or> flt hum (Fin 30) \<or> fgt hum (Fin 75))))"
  by (auto simp add: conditions_def check_temperature_def check_humidity_def SULCATA_ENV_def
      check_conditions_and_alert_def split: dispatch.splits)

theorem alert_worthy_iff_witness:
  "truthy (ALERT_CHANNEL_ID (set_alerts 7 (initial_state Missing))) \<and>
   \<not> 2000 - last_alert_time (set_alerts 7 (initial_state Missing)) < ALERT_COOLDOWN \<and>
   fst (check_conditions_and_alert (set_alerts 7 (initial_state Missing)) 2000 SendReturns
          (Fin 30) (Fin 76)) \<noteq> NotNeeded \<and>
   list_ex is_hum_part (snd (conditions (Fin 30) (Fin 76))) \<and>
   \<not> list_ex is_temp_part (snd (conditions (Fin 30) (Fin 76)))"
  using alert_worthy_iff [of "Fin 30" "Fin 76" "set_alerts 7 (initial_state Missing)" 2000 SendReturns]
  by (simp add: truthy_def set_alerts_def initial_state_def ALERT_COOLDOWN_def fgt_def
      SULCATA_ENV_def)

section \<open>Theorems: the cooldown\<close>

text \<open>
  C4 (as the code has it). When an alert-worthy reading is evaluated with a configured
  destination and an expired cooldown, \<open>last_alert_time\<close> becomes the current time if
  \<open>channel.send\<close> returns, and keeps its value if the channel is not found or the dispatch
  raises: the assignment of line 571 follows the \<open>await\<close> of line 569 inside the \<open>try\<close>.
\<close>

theorem cooldown_advances_only_on_success:
  assumes "truthy (ALERT_CHANNEL_ID s)"
    and "\<not> now - last_alert_time s < ALERT_COOLDOWN"
    and "fst (conditions temp hum)"
  shows "last_alert_time (snd (check_conditions_and_alert s now d temp hum)) =
           (if d = SendReturns then now else last_alert_time s)"
proof -
  obtain parts where "conditions temp hum = (True, parts)"
    using assms(3) by (cases "conditions temp hum") auto
  then show ?thesis
    using assms(1,2) by (cases d) (simp_all add: check_conditions_and_alert_def)
qed

theorem cooldown_advances_only_on_success_witness:
  "last_alert_time (snd (check_conditions_and_alert (set_alerts 7 (initial_state Missing))
       2000 SendReturns (Fin 41) (Fin 50))) = 2000 \<and>
   last_alert_time (snd (check_conditions_and_alert (set_alerts 7 (initial_state Missing))
       2000 NoChannel (Fin 41) (Fin 50))) = 0"
proof -
  have a: "truthy (ALERT_CHANNEL_ID (set_alerts 7 (initial_state Missing)))"
    by (simp add: truthy_def set_alerts_def initial_state_def)
  have b: "\<not> 2000 - last_alert_time (set_alerts 7 (initial_state Missing)) < ALERT_COOLDOWN"
    by (simp add: set_alerts_def initial_state_def ALERT_COOLDOWN_def)
  have c: "fst (conditions (Fin 41) (Fin 50))"
    by (simp add: conditions_def check_temperature_def check_humidity_def SULCATA_ENV_def fgt_def)
  show ?thesis
    using cooldown_advances_only_on_success [OF a b c, of SendReturns]
      cooldown_advances_only_on_success [OF a b c, of NoChannel]
    by (simp add: set_alerts_def initial_state_def)
qed

theorem cooldown_not_advanced_on_failure_counterexample:
  "fst (check_conditions_and_alert (set_alerts 7 (initial_state Missing))
          2000 SendRaises (Fin 41) (Fin 50)) = SendFailed [Header, TempTooHigh (Fin 41)] \<and>
   last_alert_time (snd (check_conditions_and_alert (set_alerts 7 (initial_state Missing))
          2000 SendRaises (Fin 41) (Fin 50))) = 0 \<and>
   last_alert_time (snd (check_conditions_and_alert (set_alerts 7 (initial_state Missing))
          2000 SendRaises (Fin 41) (Fin 50))) \<noteq> 2000"
  by (simp add: check_conditions_and_alert_def truthy_def set_alerts_def initial_state_def
      ALERT_COOLDOWN_def conditions_def check_temperature_def check_humidity_def
      SULCATA_ENV_def fgt_def)

lemma check_as_phases:
  "check_conditions_and_alert s t d temp hum =
     (case begin_check s (t, d, temp, hum) of Inl eff \<Rightarrow> (eff, s) | Inr p \<Rightarrow> end_check s p)"
  by (cases d) (simp_all add: check_conditions_and_alert_def split: prod.splits)

lemma begin_check_Inl: "begin_check s e = Inl eff \<Longrightarrow> \<not> is_sent eff"
  by (cases e) (auto split: if_splits prod.splits dispatch.splits)

lemma begin_check_Inr:
  "begin_check s e = Inr p \<Longrightarrow> fst p = fst e \<and> last_alert_time s + ALERT_COOLDOWN \<le> fst p"
  by (cases e) (auto split: if_splits prod.splits dispatch.splits)

lemma end_check_cases:
  "end_check s p = (eff, s') \<Longrightarrow>
     (is_sent eff \<and> s' = s\<lparr>last_alert_time := fst p\<rparr>) \<or> (\<not> is_sent eff \<and> s' = s)"
  by (cases p) (auto split: dispatch.splits)

lemma sent_times_Nil: "sent_times c [] = []"
  by (simp add: sent_times_def)

lemma sent_times_Cons:
  "sent_times c (ev # evs)
     = map fst (filter (\<lambda>(t, eff). is_sent eff) (fst (step c ev))) @ sent_times (snd (step c ev)) evs"
  by (simp add: sent_times_def)

lemma step_Arrive_Inl:
  "begin_check s e = Inl eff \<Longrightarrow> step (s, ps) (Arrive e) = ([(fst e, eff)], (s, ps))"
  by simp

lemma step_Arrive_Inr:
  "begin_check s e = Inr p \<Longrightarrow> step (s, ps) (Arrive e) = ([], (s, ps @ [p]))"
  by simp

lemma step_Resume_none: "\<not> n < length ps \<Longrightarrow> step (s, ps) (Resume n) = ([], (s, ps))"
  by simp

lemma step_Resume_one:
  "end_check s p = (eff, s') \<Longrightarrow> step (s, [p]) (Resume 0) = ([(fst p, eff)], (s', []))"
  by simp

lemma sent_times_skip:
  "step c ev = ([], c') \<Longrightarrow> sent_times c (ev # evs) = sent_times c' evs"
  by (simp only: sent_times_Cons fst_conv snd_conv list.map filter.simps append_Nil)

lemma sent_times_one:
  "step c ev = ([(t, eff)], c') \<Longrightarrow>
     sent_times c (ev # evs) = (if is_sent eff then [t] else []) @ sent_times c' evs"
  by (simp add: sent_times_Cons del: step.simps)

lemma sent_times_spaced:
  assumes "one_at_a_time (s, ps) evs"
    and "ps = [] \<or> (\<exists>p. ps = [p] \<and> last_alert_time s + ALERT_COOLDOWN \<le> fst p)"
  shows "(\<forall>u \<in> set (sent_times (s, ps) evs). last_alert_time s + ALERT_COOLDOWN \<le> u) \<and>
         sorted_wrt (\<lambda>a b. a + ALERT_COOLDOWN \<le> b) (sent_times (s, ps) evs)"
  using assms
proof (induction evs arbitrary: s ps)
  case Nil
  show ?case by (simp add: sent_times_Nil)
next
  case (Cons ev evs)
  have cd: "0 \<le> ALERT_COOLDOWN" by (simp add: ALERT_COOLDOWN_def)
  show ?case
  proof (cases ev)
    case (Arrive e)
    have ps: "ps = []" using Cons.prems(1) unfolding Arrive one_at_a_time.simps by simp
    have rest: "one_at_a_time (snd (step (s, []) (Arrive e))) evs"
      using Cons.prems(1) unfolding Arrive one_at_a_time.simps ps by (rule conjunct2)
    show ?thesis
    proof (cases "begin_check s e")
      case (Inl eff)
      have st: "step (s, []) (Arrive e) = ([(fst e, eff)], (s, []))"
        using Inl by (rule step_Arrive_Inl)
      have ns: "\<not> is_sent eff" using Inl by (rule begin_check_Inl)
      have eq: "sent_times (s, ps) (ev # evs) = sent_times (s, []) evs"
        unfolding ps Arrive using sent_times_one [OF st, of evs] ns by simp
      have "one_at_a_time (s, []) evs" using rest unfolding st by (simp only: snd_conv)
      then have "(\<forall>u \<in> set (sent_times (s, []) evs). last_alert_time s + ALERT_COOLDOWN \<le> u) \<and>
         sorted_wrt (\<lambda>a b. a + ALERT_COOLDOWN \<le> b) (sent_times (s, []) evs)"
        by (rule Cons.IH) simp
      then show ?thesis unfolding eq .
    next
      case (Inr p)
      have st: "step (s, []) (Arrive e) = ([], (s, [] @ [p]))"
        using Inr by (rule step_Arrive_Inr)
      have bound: "last_alert_time s + ALERT_COOLDOWN \<le> fst p"
        using begin_check_Inr [OF Inr] by (rule conjunct2)
      have eq: "sent_times (s, ps) (ev # evs) = sent_times (s, [p]) evs"
        unfolding ps Arrive using sent_times_skip [OF st, of evs] by simp
      have "one_at_a_time (s, [p]) evs" using rest unfolding st by (simp only: snd_conv append_Nil)
      then have "(\<forall>u \<in> set (sent_times (s, [p]) evs). last_alert_time s + ALERT_COOLDOWN \<le> u) \<and>
         sorted_wrt (\<lambda>a b. a + ALERT_COOLDOWN \<le> b) (sent_times (s, [p]) evs)"
        by (rule Cons.IH) (use bound in blast)
      then show ?thesis unfolding eq .
    qed
  next
    case (Resume n)
    have rest: "one_at_a_time (snd (step (s, ps) (Resume n))) evs"
      using Cons.prems(1) unfolding Resume one_at_a_time.simps .
    show ?thesis
    proof (cases "n < length ps")
      case False
      then have st: "step (s, ps) (Resume n) = ([], (s, ps))" by (rule step_Resume_none)
      have eq: "sent_times (s, ps) (ev # evs) = sent_times (s, ps) evs"
        unfolding Resume using st by (rule sent_times_skip)
      have "one_at_a_time (s, ps) evs" using rest unfolding st by (simp only: snd_conv)
      then have "(\<forall>u \<in> set (sent_times (s, ps) evs). last_alert_time s + ALERT_COOLDOWN \<le> u) \<and>
         sorted_wrt (\<lambda>a b. a + ALERT_COOLDOWN \<le> b) (sent_times (s, ps) evs)"
        using Cons.prems(2) by (rule Cons.IH)
      then show ?thesis unfolding eq .
    next
      case True
      with Cons.prems(2) obtain p where p: "ps = [p]" and n: "n = 0"
        and bound: "last_alert_time s + ALERT_COOLDOWN \<le> fst p" by auto
      obtain eff s' where ec: "end_check s p = (eff, s')" by (cases "end_check s p") blast
      have st: "step (s, [p]) (Resume 0) = ([(fst p, eff)], (s', []))"
        using ec by (rule step_Resume_one)
      have eq: "sent_times (s, ps) (ev # evs)
          = (if is_sent eff then [fst p] else []) @ sent_times (s', []) evs"
        unfolding Resume p n using st by (rule sent_times_one)
      have "one_at_a_time (s', []) evs" using rest unfolding p n st by (simp only: snd_conv)
      then have IH: "(\<forall>u \<in> set (sent_times (s', []) evs). last_alert_time s' + ALERT_COOLDOWN \<le> u) \<and>
         sorted_wrt (\<lambda>a b. a + ALERT_COOLDOWN \<le> b) (sent_times (s', []) evs)"
        by (rule Cons.IH) simp
      from end_check_cases [OF ec] show ?thesis
      proof
        assume a: "is_sent eff \<and> s' = s\<lparr>last_alert_time := fst p\<rparr>"
        then have l: "last_alert_time s' = fst p" by simp
        have later: "\<forall>u \<in> set (sent_times (s', []) evs). fst p + ALERT_COOLDOWN \<le> u"
          using IH unfolding l by (rule conjunct1)
        have srt: "sorted_wrt (\<lambda>a b. a + ALERT_COOLDOWN \<le> b) (sent_times (s', []) evs)"
          using IH by (rule conjunct2)
        have all: "\<forall>u \<in> set (sent_times (s', []) evs). last_alert_time s + ALERT_COOLDOWN \<le> u"
        proof
          fix u assume "u \<in> set (sent_times (s', []) evs)"
          with later have "fst p + ALERT_COOLDOWN \<le> u" by blast
          with bound cd show "last_alert_time s + ALERT_COOLDOWN \<le> u" by linarith
        qed
        have eq': "sent_times (s, ps) (ev # evs) = fst p # sent_times (s', []) evs"
          using eq a by simp
        show ?thesis unfolding eq' using bound all later srt by simp
      next
        assume a: "\<not> is_sent eff \<and> s' = s"
        then have eq': "sent_times (s, ps) (ev # evs) = sent_times (s', []) evs"
          using eq by simp
        show ?thesis unfolding eq' using IH a by simp
      qed
    qed
  qed
qed

text \<open>
  What the suspension at line 569 allows: a second alert-worthy reading that arrives
  while the first dispatch is pending passes the guard too, and both alerts are sent,
  10 seconds apart.
\<close>

lemma interleaved_sends:
  "schedule (set_alerts 7 (initial_state Missing), [])
     [Arrive (2000, SendReturns, Fin 41, Fin 50), Arrive (2010, SendReturns, Fin 41, Fin 50),
      Resume 0, Resume 0]
   = [(2000, Sent [Header, TempTooHigh (Fin 41)]), (2010, Sent [Header, TempTooHigh (Fin 41)])]"
  by (simp add: truthy_def set_alerts_def initial_state_def ALERT_COOLDOWN_def conditions_def
      check_temperature_def check_humidity_def SULCATA_ENV_def fgt_def)

text \<open>
  C3 (as the code has it). Take two alert-worthy readings evaluated 10 seconds apart,
  the first evaluation ending before the second begins, with a configured destination
  and a cooldown that has expired at the first. If the dispatch of the first succeeds,
  exactly one alert is emitted: the first is sent and the second is skipped. If it
  fails, or the channel is not found, the cooldown does not start and the second reading
  is dispatched as well. In every schedule in which no evaluation arrives while a
  dispatch is pending, any two dispatches that succeeded are at least the cooldown apart.
\<close>

theorem cooldown_spacing:
  "(truthy (ALERT_CHANNEL_ID s) \<and> last_alert_time s + ALERT_COOLDOWN \<le> t \<and>
      fst (conditions temp1 hum1) \<and> fst (conditions temp2 hum2) \<longrightarrow>
      map snd (schedule (s, [])
          [Arrive (t, SendReturns, temp1, hum1), Resume 0,
           Arrive (t + 10, d2, temp2, hum2), Resume 0])
        = [Sent (snd (conditions temp1 hum1)), Skipped] \<and>
      (d1 \<noteq> SendReturns \<longrightarrow>
         map snd (schedule (s, [])
             [Arrive (t, d1, temp1, hum1), Resume 0, Arrive (t + 10, d2, temp2, hum2), Resume 0])
           = [outcome d1 (snd (conditions temp1 hum1)), outcome d2 (snd (conditions temp2 hum2))] \<and>
         \<not> is_sent (outcome d1 (snd (conditions temp1 hum1))))) \<and>
   (one_at_a_time (s', []) evs \<longrightarrow>
      sorted_wrt (\<lambda>a b. a + ALERT_COOLDOWN \<le> b) (sent_times (s', []) evs))"
proof -
  have general: "sorted_wrt (\<lambda>a b. a + ALERT_COOLDOWN \<le> b) (sent_times (s', []) evs)"
    if "one_at_a_time (s', []) evs"
    using sent_times_spaced [OF that] by simp
  have two: "map snd (schedule (s, [])
          [Arrive (t, SendReturns, temp1, hum1), Resume 0,
           Arrive (t + 10, d2, temp2, hum2), Resume 0])
        = [Sent (snd (conditions temp1 hum1)), Skipped] \<and>
      (d1 \<noteq> SendReturns \<longrightarrow>
         map snd (schedule (s, [])
             [Arrive (t, d1, temp1, hum1), Resume 0, Arrive (t + 10, d2, temp2, hum2), Resume 0])
           = [outcome d1 (snd (conditions temp1 hum1)), outcome d2 (snd (conditions temp2 hum2))] \<and>
         \<not> is_sent (outcome d1 (snd (conditions temp1 hum1))))"
    if h1: "truthy (ALERT_CHANNEL_ID s)" and h2: "last_alert_time s + ALERT_COOLDOWN \<le> t"
      and h3: "fst (conditions temp1 hum1)" and h4: "fst (conditions temp2 hum2)"
  proof -
    obtain p1 where c1: "conditions temp1 hum1 = (True, p1)"
      using h3 by (cases "conditions temp1 hum1") auto
    obtain p2 where c2: "conditions temp2 hum2 = (True, p2)"
      using h4 by (cases "conditions temp2 hum2") auto
    have h2': "last_alert_time s + ALERT_COOLDOWN \<le> t + 10" using h2 by simp
    have first: "map snd (schedule (s, [])
          [Arrive (t, SendReturns, temp1, hum1), Resume 0,
           Arrive (t + 10, d2, temp2, hum2), Resume 0]) = [Sent p1, Skipped]"
      using h1 h2 c1 by (simp add: ALERT_COOLDOWN_def)
    have second: "map snd (schedule (s, [])
             [Arrive (t, d1, temp1, hum1), Resume 0, Arrive (t + 10, d2, temp2, hum2), Resume 0])
           = [outcome d1 p1, outcome d2 p2] \<and> \<not> is_sent (outcome d1 p1)"
      if "d1 \<noteq> SendReturns"
      using that h1 h2 h2' c1 c2
      by (cases d1; cases d2) (simp_all add: outcome_def)
    show ?thesis using first second c1 c2 by simp
  qed
  show ?thesis using general two by blast
qed

theorem cooldown_spacing_witness:
  "map snd (schedule (set_alerts 7 (initial_state Missing), [])
      [Arrive (2000, SendReturns, Fin 41, Fin 50), Resume 0,
       Arrive (2000 + 10, SendReturns, Fin 15, Fin 50), Resume 0])
     = [Sent (snd (conditions (Fin 41) (Fin 50))), Skipped] \<and>
   map snd (schedule (set_alerts 7 (initial_state Missing), [])
      [Arrive (2000, SendRaises, Fin 41, Fin 50), Resume 0,
       Arrive (2000 + 10, SendReturns, Fin 15, Fin 50), Resume 0])
     = [SendFailed (snd (conditions (Fin 41) (Fin 50))), Sent (snd (conditions (Fin 15) (Fin 50)))] \<and>
   one_at_a_time (set_alerts 7 (initial_state Missing), [])
      [Arrive (2000, SendReturns, Fin 41, Fin 50), Resume 0,
       Arrive (2010, SendReturns, Fin 15, Fin 50), Resume 0,
       Arrive (3800, SendReturns, Fin 15, Fin 50), Resume 0] \<and>
   sent_times (set_alerts 7 (initial_state Missing), [])
      [Arrive (2000, SendReturns, Fin 41, Fin 50), Resume 0,
       Arrive (2010, SendReturns, Fin 15, Fin 50), Resume 0,
       Arrive (3800, SendReturns, Fin 15, Fin 50), Resume 0] = [2000, 3800] \<and>
   sorted_wrt (\<lambda>a b. a + ALERT_COOLDOWN \<le> b)
     (sent_times (set_alerts 7 (initial_state Missing), [])
        [Arrive (2000, SendReturns, Fin 41, Fin 50), Resume 0,
         Arrive (2010, SendReturns, Fin 15, Fin 50), Resume 0,
         Arrive (3800, SendReturns, Fin 15, Fin 50), Resume 0])"
proof -
  let ?s = "set_alerts 7 (initial_state Missing)"
  let ?evs = "[Arrive (2000, SendReturns, Fin 41, Fin 50), Resume 0,
       Arrive (2010, SendReturns, Fin 15, Fin 50), Resume 0,
       Arrive (3800, SendReturns, Fin 15, Fin 50), Resume 0]"
  have a: "truthy (ALERT_CHANNEL_ID ?s)"
    by (simp add: truthy_def set_alerts_def initial_state_def)
  have b: "last_alert_time ?s + ALERT_COOLDOWN \<le> 2000"
    by (simp add: set_alerts_def initial_state_def ALERT_COOLDOWN_def)
  have c: "fst (conditions (Fin 41) (Fin 50))" "fst (conditions (Fin 15) (Fin 50))"
    by (simp_all add: conditions_def check_temperature_def check_humidity_def SULCATA_ENV_def fgt_def)
  have d: "one_at_a_time (?s, []) ?evs"
    by (simp add: truthy_def set_alerts_def initial_state_def ALERT_COOLDOWN_def conditions_def
        check_temperature_def check_humidity_def SULCATA_ENV_def fgt_def)
  have e: "sent_times (?s, []) ?evs = [2000, 3800]"
    by (simp add: sent_times_def truthy_def set_alerts_def initial_state_def ALERT_COOLDOWN_def
        conditions_def check_temperature_def check_humidity_def SULCATA_ENV_def fgt_def)
  have f: "SendRaises \<noteq> SendReturns" by simp
  from cooldown_spacing [of ?s 2000 "Fin 41" "Fin 50" "Fin 15" "Fin 50" SendReturns SendRaises ?s ?evs]
    a b c d f
  have "map snd (schedule (?s, [])
      [Arrive (2000, SendReturns, Fin 41, Fin 50), Resume 0,
       Arrive (2000 + 10, SendReturns, Fin 15, Fin 50), Resume 0])
     = [Sent (snd (conditions (Fin 41) (Fin 50))), Skipped]"
    and "map snd (schedule (?s, [])
      [Arrive (2000, SendRaises, Fin 41, Fin 50), Resume 0,
       Arrive (2000 + 10, SendReturns, Fin 15, Fin 50), Resume 0])
     = [outcome SendRaises (snd (conditions (Fin 41) (Fin 50))),
        outcome SendReturns (snd (conditions (Fin 15) (Fin 50)))]"
    and "sorted_wrt (\<lambda>a b. a + ALERT_COOLDOWN \<le> b) (sent_times (?s, []) ?evs)"
    by blast+
  then show ?thesis using d e by (simp add: outcome_def)
qed

theorem two_failed_dispatches_counterexample:
  "map snd (schedule (set_alerts 7 (initial_state Missing), [])
      [Arrive (2000, SendRaises, Fin 41, Fin 50), Resume 0,
       Arrive (2010, SendRaises, Fin 41, Fin 50), Resume 0])
     = [SendFailed [Header, TempTooHigh (Fin 41)], SendFailed [Header, TempTooHigh (Fin 41)]] \<and>
   length (filter is_sent (map snd (schedule (set_alerts 7 (initial_state Missing), [])
      [Arrive (2000, SendRaises, Fin 41, Fin 50), Resume 0,
       Arrive (2010, SendRaises, Fin 41, Fin 50), Resume 0]))) = 0 \<and>
   length (filter is_attempt (map snd (schedule (set_alerts 7 (initial_state Missing), [])
      [Arrive (2000, SendRaises, Fin 41, Fin 50), Resume 0,
       Arrive (2010, SendRaises, Fin 41, Fin 50), Resume 0]))) = 2"
  by (simp add: truthy_def set_alerts_def initial_state_def ALERT_COOLDOWN_def conditions_def
      check_temperature_def check_humidity_def SULCATA_ENV_def fgt_def)

section \<open>Theorems: the bounded store\<close>

lemma py_tail_absorb:
  "0 < n \<Longrightarrow> py_tail (int n) (py_tail (int n) xs @ ys) = py_tail (int n) (xs @ ys)"
proof (cases "length xs \<le> n")
  case True
  then show ?thesis by (simp add: py_tail_def)
next
  case False
  assume n: "0 < n"
  from False have "length xs + length ys - (length xs - n + n) + (length xs - n)
      = length xs + length ys - n" by arith
  then show ?thesis using n False by (simp add: py_tail_def)
qed

lemma length_py_tail: "0 < n \<Longrightarrow> length (py_tail (int n) xs) = min (length xs) n"
  by (auto simp add: py_tail_def)

lemma store_py_tail: "store e sd = py_tail (int MAX_DATA_POINTS) (sd @ [e])"
  by (simp add: store_def py_tail_def MAX_DATA_POINTS_def Let_def)

lemma save_sensor_data_keeps: "sensor_data (save_sensor_data L d s) = sensor_data s"
  by (simp add: save_sensor_data_def split: sum.splits disk.splits)

lemma check_keeps_sensor_data:
  "sensor_data (snd (check_conditions_and_alert s t d temp hum)) = sensor_data s"
  by (simp add: check_conditions_and_alert_def split: prod.splits dispatch.splits)

lemma update_data_sensor_data:
  "sensor_data (snd (snd (update_data L s w))) =
     (case new_entry L w of Inl f \<Rightarrow> sensor_data s | Inr e \<Rightarrow> store e (sensor_data s))"
proof (cases "new_entry L w")
  case (Inl f)
  then show ?thesis by (cases f) (simp_all add: update_data_def)
next
  case (Inr e)
  let ?s1 = "s\<lparr>sensor_data := store e (sensor_data s)\<rparr>"
  let ?s2 = "if length (sensor_data ?s1) mod 10 = 0 then save_sensor_data L (disk w) ?s1 else ?s1"
  have "sensor_data ?s2 = store e (sensor_data s)"
    by (simp add: save_sensor_data_keeps)
  then have "sensor_data (snd (check_conditions_and_alert ?s2 (clock w) (dispatch w)
      (entry_float e ''temp'') (entry_float e ''hum''))) = store e (sensor_data s)"
    by (simp only: check_keeps_sensor_data)
  then show ?thesis
    using Inr by (simp add: update_data_def Let_def split: prod.splits)
qed



lemma run_sensor_data:
  "length (sensor_data s) \<le> MAX_DATA_POINTS \<Longrightarrow>
   sensor_data (run L s ws) = py_tail (int MAX_DATA_POINTS) (sensor_data s @ appended L ws)"
proof (induction ws arbitrary: s)
  case Nil
  then show ?case by (simp add: appended_def py_tail_def MAX_DATA_POINTS_def)
next
  case (Cons w ws)
  let ?s' = "snd (snd (update_data L s w))"
  have M: "0 < MAX_DATA_POINTS" by (simp add: MAX_DATA_POINTS_def)
  show ?case
  proof (cases "new_entry L w")
    case (Inl f)
    then have sd: "sensor_data ?s' = sensor_data s" by (simp add: update_data_sensor_data)
    have "appended L (w # ws) = appended L ws" using Inl by (simp add: appended_def)
    then show ?thesis using Cons.IH [of ?s'] Cons.prems sd by simp
  next
    case (Inr e)
    then have sd: "sensor_data ?s' = py_tail (int MAX_DATA_POINTS) (sensor_data s @ [e])"
      by (simp add: update_data_sensor_data store_py_tail)
    then have len: "length (sensor_data ?s') \<le> MAX_DATA_POINTS"
      using M by (simp add: length_py_tail)
    have app: "appended L (w # ws) = e # appended L ws" using Inr by (simp add: appended_def)
    have "sensor_data (run L s (w # ws))
        = py_tail (int MAX_DATA_POINTS) (py_tail (int MAX_DATA_POINTS) (sensor_data s @ [e]) @ appended L ws)"
      using Cons.IH [OF len] sd by simp
    also have "\<dots> = py_tail (int MAX_DATA_POINTS) ((sensor_data s @ [e]) @ appended L ws)"
      using M by (rule py_tail_absorb)
    finally show ?thesis using app by simp
  qed
qed

text \<open>
  C1. Started with at most \<open>MAX_DATA_POINTS\<close> = 10000 stored readings, the store holds at
  most 10000 readings after every run of calls to the \<open>/update\<close> handler, and it is the last
  10000 elements of the old store followed by the readings the calls appended, in the
  order of the calls. Started empty, as the module is, it holds the last \<open>min n 10000\<close> of
  the \<open>n\<close> appended readings. (A call that fails before line 600 appends nothing.)
\<close>

theorem store_bounded_fifo:
  assumes "length (sensor_data s) \<le> MAX_DATA_POINTS"
  shows "length (sensor_data (run L s ws)) \<le> MAX_DATA_POINTS \<and>
         MAX_DATA_POINTS = 10000 \<and>
         sensor_data (run L s ws) = py_tail (int MAX_DATA_POINTS) (sensor_data s @ appended L ws) \<and>
         (sensor_data s = [] \<longrightarrow>
            length (sensor_data (run L s ws)) = min (length (appended L ws)) MAX_DATA_POINTS \<and>
            sensor_data (run L s ws)
              = drop (length (appended L ws) - min (length (appended L ws)) MAX_DATA_POINTS)
                  (appended L ws))"
proof -
  have M: "0 < MAX_DATA_POINTS" by (simp add: MAX_DATA_POINTS_def)
  have eq: "sensor_data (run L s ws) = py_tail (int MAX_DATA_POINTS) (sensor_data s @ appended L ws)"
    using assms by (rule run_sensor_data)
  then have "length (sensor_data (run L s ws)) \<le> MAX_DATA_POINTS"
    using M by (simp add: length_py_tail)
  moreover have "length (sensor_data (run L s ws)) = min (length (appended L ws)) MAX_DATA_POINTS"
    if "sensor_data s = []"
    using eq that M by (simp add: length_py_tail)
  moreover have "sensor_data (run L s ws)
              = drop (length (appended L ws) - min (length (appended L ws)) MAX_DATA_POINTS)
                  (appended L ws)" if "sensor_data s = []"
    using eq that M by (simp add: py_tail_def min_def)
  ultimately show ?thesis using eq by (simp add: MAX_DATA_POINTS_def)
qed

theorem store_bounded_fifo_witness:
  "length (sensor_data (initial_state Missing)) \<le> MAX_DATA_POINTS \<and>
   appended example_lib
     [call (reading 28 50) 2000 SendReturns, call JNull 2005 SendReturns,
      call (reading 41 50) 2010 SendReturns]
     = [[(''temp'', Json (JFloat (Fin 28))), (''hum'', Json (JFloat (Fin 50))), (''time'', Time 0)],
        [(''temp'', Json (JFloat (Fin 41))), (''hum'', Json (JFloat (Fin 50))), (''time'', Time 0)]] \<and>
   sensor_data (run example_lib (initial_state Missing)
     [call (reading 28 50) 2000 SendReturns, call JNull 2005 SendReturns,
      call (reading 41 50) 2010 SendReturns])
     = [[(''temp'', Json (JFloat (Fin 28))), (''hum'', Json (JFloat (Fin 50))), (''time'', Time 0)],
        [(''temp'', Json (JFloat (Fin 41))), (''hum'', Json (JFloat (Fin 50))), (''time'', Time 0)]]"
proof -
  have a: "length (sensor_data (initial_state Missing)) \<le> MAX_DATA_POINTS"
    by (simp add: initial_state_def)
  have b: "sensor_data (initial_state Missing) = []" by (simp add: initial_state_def)
  have c: "appended example_lib
     [call (reading 28 50) 2000 SendReturns, call JNull 2005 SendReturns,
      call (reading 41 50) 2010 SendReturns]
     = [[(''temp'', Json (JFloat (Fin 28))), (''hum'', Json (JFloat (Fin 50))), (''time'', Time 0)],
        [(''temp'', Json (JFloat (Fin 41))), (''hum'', Json (JFloat (Fin 50))), (''time'', Time 0)]]"
    by (simp add: appended_def new_entry_def call_def reading_def contains_def getitem_def
        py_float_def items_def add_extra_def dict_set_def)
  show ?thesis
    using store_bounded_fifo [OF a, of example_lib
        "[call (reading 28 50) 2000 SendReturns, call JNull 2005 SendReturns,
          call (reading 41 50) 2010 SendReturns]"] a b c
    by (simp add: MAX_DATA_POINTS_def py_tail_def)
qed

section \<open>Theorems: rejected payloads\<close>

lemma update_data_failure:
  "new_entry L w = Inl f \<Longrightarrow>
     update_data L s w = (HTTPException (if f = InvalidJSON then 400 else 500), NotEvaluated, s)"
  by (cases f) (simp_all add: update_data_def)

lemma new_entry_missing:
  "body w = Some (JObj kvs) \<Longrightarrow> ''temp'' \<notin> fst ` set kvs \<or> ''hum'' \<notin> fst ` set kvs \<Longrightarrow>
     new_entry L w = Inl (MissingField (if ''temp'' \<notin> fst ` set kvs then ''temp'' else ''hum''))"
  by (auto simp add: new_entry_def contains_def)

lemma new_entry_non_numeric:
  assumes "body w = Some (JObj kvs)"
    and "''temp'' \<in> fst ` set kvs" and "''hum'' \<in> fst ` set kvs"
    and "(\<exists>v e. map_of kvs ''temp'' = Some v \<and> py_float L v = Inl e) \<or>
         (\<exists>v e. map_of kvs ''hum'' = Some v \<and> py_float L v = Inl e)"
  shows "\<exists>e. new_entry L w = Inl (Raised e)"
  using assms
  by (auto simp add: new_entry_def contains_def getitem_def split: option.splits sum.splits)

text \<open>
  What line 629 makes of the HTTPException of line 585: a payload without \<open>hum\<close> is
  answered with status 500.
\<close>

lemma missing_field_answer:
  "fst (update_data example_lib (initial_state Missing)
          (call (JObj [(''temp'', JFloat (Fin 28))]) 2000 SendReturns)) = HTTPException 500"
  by (simp add: update_data_def new_entry_def call_def contains_def)

text \<open>
  C2 (as the code has it). A request whose payload is a JSON object that lacks \<open>temp\<close> or
  \<open>hum\<close>, or in which one of the two cannot be converted by \<open>float\<close>, is answered with an
  HTTP error, and the state of the process, the stored series included, is unchanged.
  When both fields are present and one cannot be converted, the status is 500.
\<close>

theorem rejected_payload_not_stored:
  assumes "body w = Some (JObj kvs)"
    and "''temp'' \<notin> fst ` set kvs \<or> ''hum'' \<notin> fst ` set kvs \<or>
         (\<exists>v e. map_of kvs ''temp'' = Some v \<and> py_float L v = Inl e) \<or>
         (\<exists>v e. map_of kvs ''hum'' = Some v \<and> py_float L v = Inl e)"
  shows "(\<exists>code. 400 \<le> code \<and> fst (update_data L s w) = HTTPException code) \<and>
         snd (snd (update_data L s w)) = s \<and>
         (''temp'' \<in> fst ` set kvs \<and> ''hum'' \<in> fst ` set kvs \<longrightarrow>
            fst (update_data L s w) = HTTPException 500)"
proof (cases "''temp'' \<notin> fst ` set kvs \<or> ''hum'' \<notin> fst ` set kvs")
  case True
  from new_entry_missing [OF assms(1) True, of L] obtain f where "new_entry L w = Inl f" by blast
  from update_data_failure [OF this, of s] show ?thesis using True by auto
next
  case False
  then have both: "''temp'' \<in> fst ` set kvs" "''hum'' \<in> fst ` set kvs" by auto
  with assms(2) have "(\<exists>v e. map_of kvs ''temp'' = Some v \<and> py_float L v = Inl e) \<or>
         (\<exists>v e. map_of kvs ''hum'' = Some v \<and> py_float L v = Inl e)" by blast
  from new_entry_non_numeric [OF assms(1) both this]
  obtain e where "new_entry L w = Inl (Raised e)" by blast
  from update_data_failure [OF this, of s] show ?thesis by simp
qed

theorem rejected_payload_not_stored_witness:
  "fst (update_data example_lib (initial_state Missing)
          (call (JObj [(''temp'', JStr ''hot''), (''hum'', JFloat (Fin 50))]) 2000 SendReturns))
     = HTTPException 500 \<and>
   snd (snd (update_data example_lib (initial_state Missing)
          (call (JObj [(''temp'', JStr ''hot''), (''hum'', JFloat (Fin 50))]) 2000 SendReturns)))
     = initial_state Missing"
proof -
  have a: "body (call (JObj [(''temp'', JStr ''hot''), (''hum'', JFloat (Fin 50))]) 2000 SendReturns)
      = Some (JObj [(''temp'', JStr ''hot''), (''hum'', JFloat (Fin 50))])"
    by (simp add: call_def)
  have b: "''temp'' \<notin> fst ` set [(''temp'', JStr ''hot''), (''hum'', JFloat (Fin 50))] \<or>
      ''hum'' \<notin> fst ` set [(''temp'', JStr ''hot''), (''hum'', JFloat (Fin 50))] \<or>
      (\<exists>v e. map_of [(''temp'', JStr ''hot''), (''hum'', JFloat (Fin 50))] ''temp'' = Some v \<and>
         py_float example_lib v = Inl e) \<or>
      (\<exists>v e. map_of [(''temp'', JStr ''hot''), (''hum'', JFloat (Fin 50))] ''hum'' = Some v \<and>
         py_float example_lib v = Inl e)"
    by (simp add: py_float_def example_lib_def)
  show ?thesis
    using rejected_payload_not_stored [OF a b, of "initial_state Missing"] by simp
qed

theorem non_numeric_is_server_error_counterexample:
  "fst (update_data example_lib (initial_state Missing)
          (call (JObj [(''temp'', JStr ''hot''), (''hum'', JFloat (Fin 50))]) 2000 SendReturns))
     = HTTPException 500 \<and>
   fst (update_data example_lib (initial_state Missing)
          (call (JObj [(''temp'', JNull), (''hum'', JFloat (Fin 50))]) 2000 SendReturns))
     = HTTPException 500"
  by (simp add: update_data_def new_entry_def call_def contains_def getitem_def py_float_def
      example_lib_def)

section \<open>Theorems: loading\<close>

text \<open>
  C7. \<open>load_sensor_data\<close> never raises to its caller. When \<open>DATA_FILE\<close> is missing the
  series is left as it is, which at startup is the empty series of the module's
  initialisation; when the file exists and cannot be opened or parsed, or holds JSON
  that the conversion loop cannot process, the series becomes empty.
\<close>

theorem load_never_raises:
  "(\<exists>s'. load_sensor_data L s = Inr s') \<and>
   (DATA_FILE s = Missing \<longrightarrow> load_sensor_data L s = Inr s) \<and>
   load_sensor_data L (initial_state Missing) = Inr (initial_state Missing) \<and>
   sensor_data (initial_state Missing) = [] \<and>
   (DATA_FILE s = Unreadable \<longrightarrow> load_sensor_data L s = Inr (s\<lparr>sensor_data := []\<rparr>)) \<and>
   (DATA_FILE s = Stored data \<and> load_entries L data = Inl e \<longrightarrow>
      load_sensor_data L s = Inr (s\<lparr>sensor_data := []\<rparr>))"
  by (simp add: load_sensor_data_def load_body_def initial_state_def
      split: sum.splits data_file.splits)

theorem load_never_raises_witness:
  "load_sensor_data example_lib (initial_state Missing) = Inr (initial_state Missing) \<and>
   load_sensor_data example_lib (initial_state Unreadable) = Inr (initial_state Unreadable) \<and>
   load_entries example_lib (JArr [JObj [(''temp'', JFloat (Fin 28))]]) = Inl KeyError \<and>
   load_sensor_data example_lib (initial_state (Stored (JArr [JObj [(''temp'', JFloat (Fin 28))]])))
     = Inr (initial_state (Stored (JArr [JObj [(''temp'', JFloat (Fin 28))]])))"
proof -
  have a: "load_entries example_lib (JArr [JObj [(''temp'', JFloat (Fin 28))]]) = Inl KeyError"
    by (simp add: load_entries_def load_entry_def)
  show ?thesis
    using a load_never_raises [of example_lib "initial_state Missing"]
      load_never_raises [of example_lib "initial_state Unreadable"]
      load_never_raises [of example_lib
        "initial_state (Stored (JArr [JObj [(''temp'', JFloat (Fin 28))]]))"
        "JArr [JObj [(''temp'', JFloat (Fin 28))]]" KeyError]
    by (simp add: initial_state_def)
qed

section \<open>Theorems: the query\<close>







section \<open>Theorems: smoothing\<close>














section \<open>Theorems: saving and loading\<close>




lemma add_extra_well_formed:
  assumes "well_formed e"
  shows "well_formed (add_extra e kv)"
proof (cases "fst kv \<notin> fst ` set e \<and> fst kv \<noteq> ''time''")
  case False
  then have "add_extra e kv = e" by (auto simp add: add_extra_def)
  then show ?thesis using assms by simp
next
  case True
  then have eq: "add_extra e kv = e @ [(fst kv, Json (snd kv))]"
    by (simp add: add_extra_def dict_set_def)
  from assms obtain v where "map_of e ''time'' = Some v"
    by (auto simp add: well_formed_def time_of_def split: option.splits)
  then have "map_of (e @ [(fst kv, Json (snd kv))]) ''time'' = map_of e ''time''"
    by (simp add: map_add_def)
  then have "time_of (e @ [(fst kv, Json (snd kv))]) = time_of e"
    by (simp only: time_of_def)
  then show ?thesis
    unfolding eq using assms True by (simp add: well_formed_def)
qed

lemma foldl_add_extra_well_formed: "well_formed e \<Longrightarrow> well_formed (foldl add_extra e kvs)"
  by (induction kvs arbitrary: e) (simp_all add: add_extra_well_formed)

text \<open>The entries that the handler stores are well formed.\<close>

lemma new_entry_well_formed: "new_entry L w = Inr e \<Longrightarrow> well_formed e"
proof -
  assume ne: "new_entry L w = Inr e"
  have base: "well_formed [(''temp'', Json (JFloat t)), (''hum'', Json (JFloat h)), (''time'', Time n)]"
    for t h n
    by (simp add: well_formed_def time_of_def)
  from ne obtain t h kvs where
    "e = foldl add_extra
           [(''temp'', Json (JFloat t)), (''hum'', Json (JFloat h)), (''time'', Time (ts_now w))] kvs"
    by (auto simp add: new_entry_def split: option.splits sum.splits)
  then show ?thesis using foldl_add_extra_well_formed [OF base] by simp
qed



end
